theory Spec2Isabelle
  imports Main "HOL-Library.Sublist"
begin

section \<open>A Markdown blog server: the data and the outside world\<close>

text \<open>
  The repository holds two programs of package \<open>main\<close> that serve the same blog:
  \<open>server.go\<close> and a second file. Both declare \<open>PostData\<close>, \<open>FileReader.Read\<close>,
  \<open>loadMarkdownPosts\<close> and \<open>PostHandler\<close>. \<open>FileReader.Read\<close> and
  \<open>loadMarkdownPosts\<close> have the same text in both; \<open>PostData\<close> and \<open>PostHandler\<close>
  differ. A name without suffix is \<open>server.go\<close>'s; the suffix \<open>_000\<close> marks what only
  the second file has.

  The file system, the YAML decoder, the front-matter reader and the Markdown converter
  are not code of the repository. They are parameters of the model: a function that
  returns the library's result, or its error.
\<close>

subsection \<open>Errors\<close>

text \<open>
  Go's \<open>error\<close> values, by the kind the program can meet: a missing file, a file that
  exists and may not be read, any other failure of a read, metadata that does not decode,
  a conversion that fails.
\<close>

datatype error =
    ErrNotExist
  | ErrPermission
  | ErrIO string
  | ErrMalformed string
  | ErrRender string

subsection \<open>PostData and Author\<close>

record Author =
  Name :: string
  Email :: string

text \<open>
  \<open>server.go\<close>'s \<open>PostData\<close>. \<open>Order\<close> is a Go \<open>int\<close>; the program only stores and
  hands it on, so no arithmetic can overflow. \<open>Content\<close> is \<open>template.HTML\<close>, a string.
\<close>

record PostData =
  Title :: string
  Slug :: string
  Description :: string
  Order :: int
  MetaDescription :: string
  MetaPropertyTitle :: string
  MetaPropertyDescription :: string
  MetaOgURL :: string
  Author :: Author
  Content :: string

text \<open>
  The second file's \<open>PostData\<close> has the same fields and, after \<open>Slug\<close>, the field
  \<open>Date\<close>. Fields are found by name, so the record lists it last.
\<close>

record PostData_000 = PostData +
  Date :: string

text \<open>The zero values that \<open>var post PostData\<close> declares.\<close>

definition Author_zero :: Author where
  "Author_zero = \<lparr>Name = [], Email = []\<rparr>"

definition PostData_zero :: PostData where
  "PostData_zero =
     \<lparr>Title = [], Slug = [], Description = [], Order = 0, MetaDescription = [],
      MetaPropertyTitle = [], MetaPropertyDescription = [], MetaOgURL = [],
      Author = Author_zero, Content = []\<rparr>"

definition PostData_000_zero :: PostData_000 where
  "PostData_000_zero =
     \<lparr>Title = [], Slug = [], Description = [], Order = 0, MetaDescription = [],
      MetaPropertyTitle = [], MetaPropertyDescription = [], MetaOgURL = [],
      Author = Author_zero, Content = [], Date = []\<rparr>"

subsection \<open>The collaborators\<close>

text \<open>
  \<open>os_ReadFile\<close> is \<open>os.ReadFile\<close> on the file system of the moment;
  \<open>yaml_Unmarshal text v\<close> is \<open>yaml.Unmarshal([]byte(text), &v)\<close>, returning the
  struct as the decoder leaves it; \<open>frontmatter_Parse doc v\<close> is
  \<open>frontmatter.Parse(strings.NewReader(doc), &v)\<close>, returning the struct and the rest
  of the document; \<open>md\<close> is \<open>Convert\<close> of the converter \<open>goldmark.New()\<close> and
  \<open>mdRenderer\<close> that of the converter with the GFM and highlighting extensions, each
  returning what it wrote to the buffer.
\<close>

record 'p world =
  os_ReadFile :: "string \<Rightarrow> error + string"
  yaml_Unmarshal :: "string \<Rightarrow> 'p \<Rightarrow> error + 'p"
  frontmatter_Parse :: "string \<Rightarrow> 'p \<Rightarrow> error + 'p \<times> string"
  md :: "string \<Rightarrow> error + string"
  mdRenderer :: "string \<Rightarrow> error + string"

subsection \<open>Responses\<close>

text \<open>
  What a handler tells gin to send: \<open>ctx.String(code, format, values...)\<close> or
  \<open>ctx.HTML(code, name, obj)\<close>.
\<close>

datatype 'a response =
    String_response nat string "error list"
  | HTML_response nat string 'a

definition StatusOK :: nat where
  "StatusOK = 200"

definition StatusNotFound :: nat where
  "StatusNotFound = 404"

definition StatusInternalServerError :: nat where
  "StatusInternalServerError = 500"

fun status :: "'a response \<Rightarrow> nat" where
  "status (String_response code format values) = code"
| "status (HTML_response code name obj) = code"

text \<open>
  The body of a plain-text response. gin writes the format as it is when the call gives
  no values, and through \<open>fmt.Fprintf\<close> when it gives some. No format of the program
  has a verb, and \<open>fmt\<close> appends \<open>%!(EXTRA type=value, ...)\<close> for the operands no verb
  uses; \<open>operand e\<close> is the \<open>type=value\<close> text of \<open>e\<close>.
\<close>

fun join :: "string \<Rightarrow> string list \<Rightarrow> string" where
  "join sep [] = []"
| "join sep [x] = x"
| "join sep (x # y # ys) = x @ sep @ join sep (y # ys)"

definition String_body :: "(error \<Rightarrow> string) \<Rightarrow> string \<Rightarrow> error list \<Rightarrow> string" where
  "String_body operand format values =
     (if values = [] then format
      else format @ ''%!(EXTRA '' @ join '', '' (map operand values) @ '')'')"

fun String_text :: "(error \<Rightarrow> string) \<Rightarrow> 'a response \<Rightarrow> string option" where
  "String_text operand (String_response code format values) =
     Some (String_body operand format values)"
| "String_text operand (HTML_response code name obj) = None"

fun plain_text :: "'a response \<Rightarrow> bool" where
  "plain_text (String_response code format values) = True"
| "plain_text (HTML_response code name obj) = False"

section \<open>FileReader.Read\<close>

text \<open>
  An open file is what \<open>io.ReadAll\<close> will return for it. \<open>os_Open\<close> is \<open>os.Open\<close> on the
  file system of the moment.
\<close>

type_synonym File = "error + string"

definition io_ReadAll :: "File \<Rightarrow> error + string" where
  "io_ReadAll fr = fr"

definition FileReader_Read :: "(string \<Rightarrow> error + File) \<Rightarrow> string \<Rightarrow> error + string" where
  "FileReader_Read os_Open slug =
     (case os_Open (''markdown/'' @ slug @ ''.md'') of
        Inl err \<Rightarrow> Inl err
      | Inr fr \<Rightarrow>
          (case io_ReadAll fr of
             Inl err \<Rightarrow> Inl err
           | Inr b \<Rightarrow> Inr b))"

text \<open>
  Where a relative path leads when no directory on it is a symbolic link: the names
  between the slashes, with \<open>.\<close> and the empty name dropped and \<open>..\<close> leaving the
  directory entered last. \<open>resolve\<close> keeps the directories entered so far, last first.
\<close>

fun segments :: "string \<Rightarrow> string list" where
  "segments [] = [[]]"
| "segments (c # cs) =
     (if c = CHR ''/'' then [] # segments cs
      else (case segments cs of
              [] \<Rightarrow> [[c]]
            | seg # segs \<Rightarrow> (c # seg) # segs))"

fun resolve :: "string list \<Rightarrow> string list \<Rightarrow> string list" where
  "resolve entered [] = rev entered"
| "resolve entered (seg # segs) =
     (if seg = [] \<or> seg = ''.'' then resolve entered segs
      else if seg = ''..'' then
        (case entered of
           [] \<Rightarrow> resolve [''..''] segs
         | d # ds \<Rightarrow> if d = ''..'' then resolve (''..'' # d # ds) segs else resolve ds segs)
      else resolve (seg # entered) segs)"

definition leads_to :: "string \<Rightarrow> string list" where
  "leads_to path = resolve [] (segments path)"

definition inside_markdown :: "string \<Rightarrow> bool" where
  "inside_markdown path =
     (case leads_to path of
        [] \<Rightarrow> False
      | d # ds \<Rightarrow> d = ''markdown'' \<and> ds \<noteq> [])"

section \<open>loadMarkdownPosts\<close>

subsection \<open>strings.HasSuffix and strings.SplitN\<close>

definition HasSuffix :: "string \<Rightarrow> string \<Rightarrow> bool" where
  "HasSuffix s suff = (length suff \<le> length s \<and> drop (length s - length suff) s = suff)"

text \<open>
  \<open>Cut s sep\<close> is the text before and the text after the first \<open>sep\<close> in \<open>s\<close>, if there
  is one. \<open>SplitN s sep n\<close> is \<open>strings.SplitN\<close> for a separator that is not empty and
  \<open>n \<ge> 0\<close>, the only way the program calls it: at most \<open>n\<close> pieces, the last one the
  unsplit rest.
\<close>

fun Cut :: "string \<Rightarrow> string \<Rightarrow> (string \<times> string) option" where
  "Cut [] sep = (if sep = [] then Some ([], []) else None)"
| "Cut (c # cs) sep =
     (if prefix sep (c # cs) then Some ([], drop (length sep) (c # cs))
      else (case Cut cs sep of
              None \<Rightarrow> None
            | Some (before, after) \<Rightarrow> Some (c # before, after)))"

fun SplitN :: "string \<Rightarrow> string \<Rightarrow> nat \<Rightarrow> string list" where
  "SplitN s sep 0 = []"
| "SplitN s sep (Suc 0) = [s]"
| "SplitN s sep (Suc (Suc n)) =
     (case Cut s sep of
        None \<Rightarrow> [s]
      | Some (before, after) \<Rightarrow> before # SplitN after sep (Suc n))"

definition LF :: char where
  "LF = CHR 0x0A"

text \<open>The separator \<open>"\n---\n"\<close>.\<close>

definition separator :: string where
  "separator = LF # ''---'' @ [LF]"

subsection \<open>filepath.Walk\<close>

text \<open>
  \<open>filepath.Walk\<close> calls its function with a path, the file's \<open>FileInfo\<close> and the
  error it met there, for the root and everything below it, in its own order, and stops
  at the first call that returns an error, which it returns. (The function of the
  program never returns \<open>filepath.SkipDir\<close>.) A directory is given as the calls Walk
  would make over it, in Walk's order. The function changes the variable \<open>posts\<close> it
  closes over: the state \<open>'s\<close>.
\<close>

record FileInfo =
  info_Name :: string
  info_IsDir :: bool

type_synonym visit = "string \<times> FileInfo \<times> error option"

fun filepath_Walk ::
  "visit list \<Rightarrow> (string \<Rightarrow> FileInfo \<Rightarrow> error option \<Rightarrow> 's \<Rightarrow> error option \<times> 's) \<Rightarrow> 's
     \<Rightarrow> error option \<times> 's" where
  "filepath_Walk [] fn s = (None, s)"
| "filepath_Walk ((path, info, err) # rest) fn s =
     (case fn path info err s of
        (Some e, s') \<Rightarrow> (Some e, s')
      | (None, s') \<Rightarrow> filepath_Walk rest fn s')"

subsection \<open>The function given to Walk, and loadMarkdownPosts\<close>

text \<open>
  \<open>z\<close> is the zero value of the program's \<open>PostData\<close>, as \<open>var postData PostData\<close>
  declares it: \<open>PostData_zero\<close> in \<open>server.go\<close>, \<open>PostData_000_zero\<close> in the second file.
\<close>

definition walkFn ::
  "('m PostData_scheme) world \<Rightarrow> 'm PostData_scheme \<Rightarrow> string \<Rightarrow> FileInfo \<Rightarrow> error option
     \<Rightarrow> 'm PostData_scheme list \<Rightarrow> error option \<times> 'm PostData_scheme list" where
  "walkFn W z path info err posts =
     (case err of
        Some e \<Rightarrow> (Some e, posts)
      | None \<Rightarrow>
          if \<not> info_IsDir info \<and> HasSuffix (info_Name info) ''.md'' then
            (case os_ReadFile W path of
               Inl e \<Rightarrow> (Some e, posts)
             | Inr content \<Rightarrow>
                 (let split = SplitN content separator 2 in
                  if length split > 1 then
                    (case yaml_Unmarshal W (split ! 0) z of
                       Inl e \<Rightarrow> (Some e, posts)
                     | Inr postData \<Rightarrow>
                         (case md W (split ! 1) of
                            Inl e \<Rightarrow> (Some e, posts)
                          | Inr buf \<Rightarrow> (None, posts @ [postData\<lparr>Content := buf\<rparr>])))
                  else
                    (case md W content of
                       Inl e \<Rightarrow> (Some e, posts)
                     | Inr buf \<Rightarrow> (None, posts @ [z\<lparr>Content := buf\<rparr>]))))
          else (None, posts))"

definition loadMarkdownPosts ::
  "('m PostData_scheme) world \<Rightarrow> 'm PostData_scheme \<Rightarrow> visit list
     \<Rightarrow> error + 'm PostData_scheme list" where
  "loadMarkdownPosts W z dir =
     (case filepath_Walk dir (walkFn W z) [] of
        (Some err, posts) \<Rightarrow> Inl err
      | (None, posts) \<Rightarrow> Inr posts)"

text \<open>
  The handler of \<open>GET /\<close> in \<open>main\<close>: \<open>log.Fatal(err)\<close> ends the process (\<open>Inl\<close>),
  otherwise the posts go to the template \<open>index.html\<close>.
\<close>

definition index_handler ::
  "('m PostData_scheme) world \<Rightarrow> 'm PostData_scheme \<Rightarrow> visit list
     \<Rightarrow> error + ('m PostData_scheme list) response" where
  "index_handler W z dir =
     (case loadMarkdownPosts W z dir of
        Inl err \<Rightarrow> Inl err
      | Inr posts \<Rightarrow> Inr (HTML_response StatusOK ''index.html'' posts))"

section \<open>PostHandler\<close>

subsection \<open>server.go\<close>

text \<open>
  \<open>sl\<close> is the \<open>SlugRender\<close>: its \<open>Read\<close>. On an error Go's \<open>readAndParse\<close> also returns
  the struct and an empty string; its one caller drops both, and the model returns the
  error alone.
\<close>

definition readAndParse ::
  "PostData world \<Rightarrow> (string \<Rightarrow> error + string) \<Rightarrow> string \<Rightarrow> error + PostData \<times> string" where
  "readAndParse W sl slug =
     (case sl slug of
        Inl err \<Rightarrow> Inl err
      | Inr postMarkdown \<Rightarrow>
          (case frontmatter_Parse W postMarkdown PostData_zero of
             Inl err \<Rightarrow> Inl err
           | Inr (post, remainingMd) \<Rightarrow> Inr (post, remainingMd)))"

definition renderMarkdown :: "(string \<Rightarrow> error + string) \<Rightarrow> string \<Rightarrow> error + string" where
  "renderMarkdown convert markdown =
     (case convert markdown of
        Inl err \<Rightarrow> Inl err
      | Inr buf \<Rightarrow> Inr buf)"

definition PostHandler ::
  "PostData world \<Rightarrow> (string \<Rightarrow> error + string) \<Rightarrow> string \<Rightarrow> PostData response" where
  "PostHandler W sl slug =
     (case readAndParse W sl slug of
        Inl err \<Rightarrow> String_response StatusNotFound ''Post not found'' []
      | Inr (post, remainingMd) \<Rightarrow>
          (case renderMarkdown (mdRenderer W) remainingMd of
             Inl err \<Rightarrow> String_response StatusInternalServerError ''Error rendering markdown'' []
           | Inr html \<Rightarrow> HTML_response StatusOK ''post.html'' (post\<lparr>Content := html\<rparr>)))"

subsection \<open>The second file\<close>

definition PostHandler_000 ::
  "PostData_000 world \<Rightarrow> (string \<Rightarrow> error + string) \<Rightarrow> string \<Rightarrow> PostData_000 response" where
  "PostHandler_000 W sl slug =
     (case sl slug of
        Inl err \<Rightarrow> String_response StatusNotFound ''Post not found'' [err]
      | Inr postMarkdown \<Rightarrow>
          (case frontmatter_Parse W postMarkdown PostData_000_zero of
             Inl err \<Rightarrow>
               String_response StatusInternalServerError ''Error parsing frontmatter'' [err]
           | Inr (post, remainingMd) \<Rightarrow>
               (case mdRenderer W remainingMd of
                  Inl err \<Rightarrow>
                    String_response StatusInternalServerError ''Error rendering markdown'' []
                | Inr buf \<Rightarrow> HTML_response StatusOK ''post.html'' (post\<lparr>Content := buf\<rparr>))))"

section \<open>The metadata decoder\<close>

text \<open>
  Modelled from the spec: the decoder of the metadata block, which is the library
  \<open>yaml.v2\<close> and not code of the repository. The spec (4.3): the block is deserialized
  against the schema using key names as declared; unknown keys are ignored; missing keys
  take the field's zero value; a block that is not valid structured-mapping text fails
  with a Malformed-class error; an empty block yields the zero value. The schema is the
  source's: the \<open>yaml\<close> tags of \<open>PostData\<close> and \<open>Author\<close>. \<open>Content\<close> has no tag, and
  the library then takes the field's name in lower case as its key.

  A block that parses is a tree. Reading the text into a tree is left to a parameter
  (\<open>parse\<close>, \<open>None\<close> for an empty document), and so is reading an integer from a scalar
  (\<open>to_int\<close>). The pairs of a mapping are decoded in the order written, so the last of
  two pairs with the same key stays.
\<close>

datatype yaml =
    YNull
  | YScalar string
  | YMapping "(string \<times> yaml) list"
  | YSequence "yaml list"

definition string_field :: "yaml \<Rightarrow> error + string" where
  "string_field v =
     (case v of
        YNull \<Rightarrow> Inr []
      | YScalar s \<Rightarrow> Inr s
      | YMapping kvs \<Rightarrow> Inl (ErrMalformed ''cannot unmarshal !!map into string'')
      | YSequence vs \<Rightarrow> Inl (ErrMalformed ''cannot unmarshal !!seq into string''))"

definition int_field :: "(string \<Rightarrow> int option) \<Rightarrow> yaml \<Rightarrow> error + int" where
  "int_field to_int v =
     (case v of
        YNull \<Rightarrow> Inr 0
      | YScalar s \<Rightarrow>
          (case to_int s of
             None \<Rightarrow> Inl (ErrMalformed ''cannot unmarshal !!str into int'')
           | Some i \<Rightarrow> Inr i)
      | YMapping kvs \<Rightarrow> Inl (ErrMalformed ''cannot unmarshal !!map into int'')
      | YSequence vs \<Rightarrow> Inl (ErrMalformed ''cannot unmarshal !!seq into int''))"

fun decode_fields ::
  "(string \<Rightarrow> yaml \<Rightarrow> 'a \<Rightarrow> error + 'a) \<Rightarrow> (string \<times> yaml) list \<Rightarrow> 'a \<Rightarrow> error + 'a" where
  "decode_fields set_field [] a = Inr a"
| "decode_fields set_field ((k, v) # kvs) a =
     (case set_field k v a of
        Inl e \<Rightarrow> Inl e
      | Inr a' \<Rightarrow> decode_fields set_field kvs a')"

definition set_Author_field :: "string \<Rightarrow> yaml \<Rightarrow> Author \<Rightarrow> error + Author" where
  "set_Author_field k v a =
     (if k = ''name'' then map_sum id (\<lambda>s. a\<lparr>Name := s\<rparr>) (string_field v)
      else if k = ''email'' then map_sum id (\<lambda>s. a\<lparr>Email := s\<rparr>) (string_field v)
      else Inr a)"

definition decode_Author :: "yaml \<Rightarrow> Author \<Rightarrow> error + Author" where
  "decode_Author v a =
     (case v of
        YNull \<Rightarrow> Inr Author_zero
      | YScalar s \<Rightarrow> Inl (ErrMalformed ''cannot unmarshal !!str into main.Author'')
      | YMapping kvs \<Rightarrow> decode_fields set_Author_field kvs a
      | YSequence vs \<Rightarrow> Inl (ErrMalformed ''cannot unmarshal !!seq into main.Author''))"

text \<open>The keys of \<open>server.go\<close>'s \<open>PostData\<close>.\<close>

definition set_PostData_field ::
  "(string \<Rightarrow> int option) \<Rightarrow> string \<Rightarrow> yaml \<Rightarrow> 'm PostData_scheme
     \<Rightarrow> error + 'm PostData_scheme" where
  "set_PostData_field to_int k v p =
     (if k = ''Title'' then map_sum id (\<lambda>s. p\<lparr>Title := s\<rparr>) (string_field v)
      else if k = ''Slug'' then map_sum id (\<lambda>s. p\<lparr>Slug := s\<rparr>) (string_field v)
      else if k = ''Description'' then map_sum id (\<lambda>s. p\<lparr>Description := s\<rparr>) (string_field v)
      else if k = ''Order'' then map_sum id (\<lambda>i. p\<lparr>Order := i\<rparr>) (int_field to_int v)
      else if k = ''MetaDescription'' then
        map_sum id (\<lambda>s. p\<lparr>MetaDescription := s\<rparr>) (string_field v)
      else if k = ''MetaPropertyTitle'' then
        map_sum id (\<lambda>s. p\<lparr>MetaPropertyTitle := s\<rparr>) (string_field v)
      else if k = ''MetaPropertyDescription'' then
        map_sum id (\<lambda>s. p\<lparr>MetaPropertyDescription := s\<rparr>) (string_field v)
      else if k = ''MetaOgURL'' then map_sum id (\<lambda>s. p\<lparr>MetaOgURL := s\<rparr>) (string_field v)
      else if k = ''author'' then map_sum id (\<lambda>a. p\<lparr>Author := a\<rparr>) (decode_Author v (Author p))
      else if k = ''content'' then map_sum id (\<lambda>s. p\<lparr>Content := s\<rparr>) (string_field v)
      else Inr p)"

text \<open>The keys of the second file's \<open>PostData\<close>: the same, and \<open>Date\<close>.\<close>

definition set_PostData_000_field ::
  "(string \<Rightarrow> int option) \<Rightarrow> string \<Rightarrow> yaml \<Rightarrow> PostData_000 \<Rightarrow> error + PostData_000" where
  "set_PostData_000_field to_int k v p =
     (if k = ''Date'' then map_sum id (\<lambda>s. p\<lparr>Date := s\<rparr>) (string_field v)
      else set_PostData_field to_int k v p)"

definition decode_PostData :: "(string \<Rightarrow> int option) \<Rightarrow> yaml \<Rightarrow> PostData \<Rightarrow> error + PostData" where
  "decode_PostData to_int v p =
     (case v of
        YNull \<Rightarrow> Inr PostData_zero
      | YScalar s \<Rightarrow> Inl (ErrMalformed ''cannot unmarshal !!str into main.PostData'')
      | YMapping kvs \<Rightarrow> decode_fields (set_PostData_field to_int) kvs p
      | YSequence vs \<Rightarrow> Inl (ErrMalformed ''cannot unmarshal !!seq into main.PostData''))"

definition decode_PostData_000 ::
  "(string \<Rightarrow> int option) \<Rightarrow> yaml \<Rightarrow> PostData_000 \<Rightarrow> error + PostData_000" where
  "decode_PostData_000 to_int v p =
     (case v of
        YNull \<Rightarrow> Inr PostData_000_zero
      | YScalar s \<Rightarrow> Inl (ErrMalformed ''cannot unmarshal !!str into main.PostData'')
      | YMapping kvs \<Rightarrow> decode_fields (set_PostData_000_field to_int) kvs p
      | YSequence vs \<Rightarrow> Inl (ErrMalformed ''cannot unmarshal !!seq into main.PostData''))"

definition yaml_Unmarshal_by ::
  "(string \<Rightarrow> error + yaml option) \<Rightarrow> (yaml \<Rightarrow> 'p \<Rightarrow> error + 'p) \<Rightarrow> string \<Rightarrow> 'p \<Rightarrow> error + 'p" where
  "yaml_Unmarshal_by parse decode text v =
     (case parse text of
        Inl e \<Rightarrow> Inl e
      | Inr None \<Rightarrow> Inr v
      | Inr (Some node) \<Rightarrow> decode node v)"

text \<open>
  Modelled from the spec: the front-matter reader of the single-post path, which is the
  library \<open>frontmatter\<close> and not code of the repository. The spec (4.2): it consumes only
  the header block and returns the rest of the document; without a header the metadata
  stay as they are and the whole text is the rest. Finding the block is left to a
  parameter (\<open>extract\<close>); the block goes to the YAML decoder.
\<close>

definition frontmatter_Parse_by ::
  "(string \<Rightarrow> error + string option \<times> string) \<Rightarrow> (string \<Rightarrow> 'p \<Rightarrow> error + 'p) \<Rightarrow> string \<Rightarrow> 'p
     \<Rightarrow> error + 'p \<times> string" where
  "frontmatter_Parse_by extract unmarshal doc v =
     (case extract doc of
        Inl e \<Rightarrow> Inl e
      | Inr (None, rest) \<Rightarrow> Inr (v, rest)
      | Inr (Some block, rest) \<Rightarrow>
          (case unmarshal block v of
             Inl e \<Rightarrow> Inl e
           | Inr v' \<Rightarrow> Inr (v', rest)))"

section \<open>The words of the specification\<close>

text \<open>
  The specification speaks of delimiter lines: lines that hold three hyphens and nothing
  else. \<open>lines_of\<close> are the lines of a text, \<open>delimiter_lines\<close> counts those that are
  delimiters, and \<open>body_block\<close> is the text \<open>loadMarkdownPosts\<close> converts: what follows
  the first separator, or the whole text when it has none.
\<close>

fun lines_of :: "string \<Rightarrow> string list" where
  "lines_of [] = [[]]"
| "lines_of (c # cs) =
     (if c = LF then [] # lines_of cs
      else (case lines_of cs of
              [] \<Rightarrow> [[c]]
            | l # ls \<Rightarrow> (c # l) # ls))"

definition delimiter_lines :: "string \<Rightarrow> nat" where
  "delimiter_lines doc = length (filter (\<lambda>l. l = ''---'') (lines_of doc))"

definition body_block :: "string \<Rightarrow> string" where
  "body_block content =
     (case Cut content separator of
        None \<Rightarrow> content
      | Some (before, after) \<Rightarrow> after)"

definition markdown_file :: "visit \<Rightarrow> bool" where
  "markdown_file v =
     (case v of (path, info, err) \<Rightarrow> \<not> info_IsDir info \<and> HasSuffix (info_Name info) ''.md'')"

text \<open>
  The stages of one document, in the specification's order: read, metadata decode,
  conversion. \<open>document_error\<close> is the error of the first stage that fails, if one does.
\<close>

definition document_error ::
  "('m PostData_scheme) world \<Rightarrow> 'm PostData_scheme \<Rightarrow> string \<Rightarrow> error option" where
  "document_error W z path =
     (case os_ReadFile W path of
        Inl e \<Rightarrow> Some e
      | Inr content \<Rightarrow>
          (case Cut content separator of
             None \<Rightarrow> (case md W content of Inl e \<Rightarrow> Some e | Inr html \<Rightarrow> None)
           | Some (before, after) \<Rightarrow>
               (case yaml_Unmarshal W before z of
                  Inl e \<Rightarrow> Some e
                | Inr postData \<Rightarrow> (case md W after of Inl e \<Rightarrow> Some e | Inr html \<Rightarrow> None))))"

text \<open>
  A visit is valid when Walk met no error there and, if it is a Markdown file, no stage
  of the document fails.
\<close>

definition valid_visit ::
  "('m PostData_scheme) world \<Rightarrow> 'm PostData_scheme \<Rightarrow> visit \<Rightarrow> bool" where
  "valid_visit W z v =
     (case v of (path, info, err) \<Rightarrow>
        err = None \<and> (if markdown_file v then document_error W z path = None else True))"

text \<open>
  \<open>post_of_visit W z v p\<close>: the function given to Walk, called for \<open>v\<close>, appends the
  post \<open>p\<close>. \<open>rendered W v p\<close>: the content of \<open>p\<close> is what the converter wrote for the
  body block of the document at \<open>v\<close>.
\<close>

definition post_of_visit ::
  "('m PostData_scheme) world \<Rightarrow> 'm PostData_scheme \<Rightarrow> visit \<Rightarrow> 'm PostData_scheme \<Rightarrow> bool" where
  "post_of_visit W z v p =
     (case v of (path, info, err) \<Rightarrow> walkFn W z path info err [] = (None, [p]))"

definition rendered :: "('m PostData_scheme) world \<Rightarrow> visit \<Rightarrow> 'm PostData_scheme \<Rightarrow> bool" where
  "rendered W v p =
     (case v of (path, info, err) \<Rightarrow>
        (case os_ReadFile W path of
           Inl e \<Rightarrow> False
         | Inr content \<Rightarrow> md W (body_block content) = Inr (Content p)))"

text \<open>Two posts that differ at most in \<open>Order\<close>.\<close>

definition same_but_Order :: "'m PostData_scheme \<Rightarrow> 'm PostData_scheme \<Rightarrow> bool" where
  "same_but_Order p q = (q\<lparr>Order := Order p\<rparr> = p)"

text \<open>A decoder that sets \<open>Order\<close> as \<open>g\<close> says, and is the world's decoder otherwise.\<close>

definition with_Order ::
  "(string \<Rightarrow> 'm PostData_scheme \<Rightarrow> int) \<Rightarrow> ('m PostData_scheme) world
     \<Rightarrow> ('m PostData_scheme) world" where
  "with_Order g W =
     W\<lparr>yaml_Unmarshal :=
         \<lambda>text v. map_sum id (\<lambda>p. p\<lparr>Order := g text p\<rparr>) (yaml_Unmarshal W text v)\<rparr>"

section \<open>A small blog for the examples\<close>

text \<open>
  The documents of a directory \<open>markdown\<close>, with what the file system and the libraries
  return for them. \<open>locked.md\<close> exists and may not be read; every other name is absent.
\<close>

definition doc_a :: string where
  "doc_a = ''Title: A'' @ LF # ''---'' @ LF # ''body''"

definition doc_b :: string where
  "doc_b = ''plain''"

definition doc_open :: string where
  "doc_open = ''---'' @ LF # ''Title: A'' @ LF # ''body''"

definition doc_bad :: string where
  "doc_bad = ''Title: ['' @ LF # ''---'' @ LF # ''x''"

definition doc_blank :: string where
  "doc_blank = [LF]"

definition doc_dated :: string where
  "doc_dated =
     ''---'' @ LF # ''Title: T'' @ LF # ''Date: 2024-05-01'' @ LF # ''Order: 3'' @ LF # ''---'' @ LF
       # ''Hello''"

definition doc_broken :: string where
  "doc_broken = ''---'' @ LF # ''Title: ['' @ LF # ''---'' @ LF # ''x''"

definition demo_files :: "string \<Rightarrow> error + string" where
  "demo_files path =
     (if path = ''markdown/a.md'' then Inr doc_a
      else if path = ''markdown/b.md'' then Inr doc_b
      else if path = ''markdown/open.md'' then Inr doc_open
      else if path = ''markdown/bad.md'' then Inr doc_bad
      else if path = ''markdown/blank.md'' then Inr doc_blank
      else if path = ''markdown/dated.md'' then Inr doc_dated
      else if path = ''markdown/broken.md'' then Inr doc_broken
      else if path = ''markdown/locked.md'' then Inl ErrPermission
      else Inl ErrNotExist)"

definition demo_Open :: "string \<Rightarrow> error + File" where
  "demo_Open path =
     (case demo_files path of
        Inl e \<Rightarrow> Inl e
      | Inr content \<Rightarrow> Inr (Inr content))"

text \<open>The front-matter blocks of \<open>dated.md\<close> and \<open>broken.md\<close>, and the trees of the blocks.\<close>

definition block_dated :: string where
  "block_dated = ''Title: T'' @ LF # ''Date: 2024-05-01'' @ LF # ''Order: 3'' @ [LF]"

definition block_broken :: string where
  "block_broken = ''Title: ['' @ [LF]"

definition demo_extract :: "string \<Rightarrow> error + string option \<times> string" where
  "demo_extract doc =
     (if doc = doc_dated then Inr (Some block_dated, ''Hello'')
      else if doc = doc_broken then Inr (Some block_broken, ''x'')
      else Inr (None, doc))"

definition demo_yaml :: "string \<Rightarrow> error + yaml option" where
  "demo_yaml text =
     (if text = [] then Inr None
      else if text = ''Title: A'' then Inr (Some (YMapping [(''Title'', YScalar ''A'')]))
      else if text = block_dated then
        Inr (Some (YMapping
          [(''Title'', YScalar ''T''), (''Date'', YScalar ''2024-05-01''), (''Order'', YScalar ''3'')]))
      else Inl (ErrMalformed ''yaml: did not find expected node content''))"

definition demo_int :: "string \<Rightarrow> int option" where
  "demo_int s = (if s = ''3'' then Some 3 else None)"

text \<open>
  The converter of the examples writes a paragraph, and nothing for a text that holds
  blank lines only, as a CommonMark converter does.
\<close>

definition demo_md :: "string \<Rightarrow> error + string" where
  "demo_md s =
     (if list_all (\<lambda>c. c = LF \<or> c = CHR '' '') s then Inr []
      else Inr (''<p>'' @ s @ ''</p>'' @ [LF]))"

definition demo_world :: "PostData world" where
  "demo_world =
     \<lparr>os_ReadFile = demo_files,
      yaml_Unmarshal = yaml_Unmarshal_by demo_yaml (decode_PostData demo_int),
      frontmatter_Parse =
        frontmatter_Parse_by demo_extract (yaml_Unmarshal_by demo_yaml (decode_PostData demo_int)),
      md = demo_md,
      mdRenderer = demo_md\<rparr>"

definition demo_world_000 :: "PostData_000 world" where
  "demo_world_000 =
     \<lparr>os_ReadFile = demo_files,
      yaml_Unmarshal = yaml_Unmarshal_by demo_yaml (decode_PostData_000 demo_int),
      frontmatter_Parse =
        frontmatter_Parse_by demo_extract
          (yaml_Unmarshal_by demo_yaml (decode_PostData_000 demo_int)),
      md = demo_md,
      mdRenderer = demo_md\<rparr>"

definition markdown_dir :: FileInfo where
  "markdown_dir = \<lparr>info_Name = ''markdown'', info_IsDir = True\<rparr>"

definition regular :: "string \<Rightarrow> FileInfo" where
  "regular n = \<lparr>info_Name = n, info_IsDir = False\<rparr>"

text \<open>Three walks: two documents and a text file; the same with \<open>bad.md\<close>; \<open>blank.md\<close> alone.\<close>

definition demo_dir :: "visit list" where
  "demo_dir =
     [(''./markdown'', markdown_dir, None),
      (''markdown/a.md'', regular ''a.md'', None),
      (''markdown/b.md'', regular ''b.md'', None),
      (''markdown/notes.txt'', regular ''notes.txt'', None)]"

definition demo_dir_bad :: "visit list" where
  "demo_dir_bad =
     [(''./markdown'', markdown_dir, None),
      (''markdown/a.md'', regular ''a.md'', None),
      (''markdown/bad.md'', regular ''bad.md'', None),
      (''markdown/b.md'', regular ''b.md'', None)]"

definition demo_dir_blank :: "visit list" where
  "demo_dir_blank =
     [(''./markdown'', markdown_dir, None),
      (''markdown/blank.md'', regular ''blank.md'', None)]"

text \<open>
  A file system that agrees with the blog's on \<open>locked.md\<close> and on nothing else, a decoder
  that refuses every block, and an \<open>Order\<close> for \<open>with_Order\<close>.
\<close>

definition other_Open :: "string \<Rightarrow> error + File" where
  "other_Open path =
     (if path = ''markdown/locked.md'' then Inl ErrPermission else Inr (Inr ''elsewhere''))"

definition refusing :: "string \<Rightarrow> PostData \<Rightarrow> error + PostData" where
  "refusing text v = Inl (ErrMalformed ''refused'')"

definition demo_Order :: "string \<Rightarrow> PostData \<Rightarrow> int" where
  "demo_Order text p = 7"

section \<open>The single-post handlers\<close>

lemmas status_defs = StatusOK_def StatusNotFound_def StatusInternalServerError_def

lemmas demo_defs =
  demo_files_def demo_world_def demo_yaml_def demo_int_def demo_md_def doc_a_def doc_b_def
  doc_open_def doc_bad_def doc_blank_def block_dated_def LF_def separator_def
  markdown_dir_def regular_def HasSuffix_def markdown_file_def yaml_Unmarshal_by_def
  decode_PostData_def set_PostData_field_def string_field_def

lemma FileReader_Read_Open_error:
  "os_Open (''markdown/'' @ slug @ ''.md'') = Inl err \<Longrightarrow> FileReader_Read os_Open slug = Inl err"
  by (simp add: FileReader_Read_def)

lemma FileReader_Read_content:
  "FileReader_Read os_Open slug =
     (case os_Open (''markdown/'' @ slug @ ''.md'') of Inl err \<Rightarrow> Inl err | Inr fr \<Rightarrow> fr)"
  by (simp add: FileReader_Read_def io_ReadAll_def split: sum.splits)

text \<open>
  A \<open>Read\<close> that fails: both handlers answer 404. \<open>server.go\<close> gives the format alone,
  the second file gives the error as an operand.
\<close>

lemma PostHandler_Read_error:
  "sl slug = Inl err \<Longrightarrow>
     PostHandler W sl slug = String_response StatusNotFound ''Post not found'' []"
  by (simp add: PostHandler_def readAndParse_def)

lemma PostHandler_000_Read_error:
  "sl slug = Inl err \<Longrightarrow>
     PostHandler_000 W sl slug = String_response StatusNotFound ''Post not found'' [err]"
  by (simp add: PostHandler_000_def)

text \<open>
  A document that is read and whose metadata do not decode: \<open>readAndParse\<close> returns the
  decoder's error the way it returns a failed \<open>Read\<close>, and \<open>server.go\<close>'s handler answers
  404 to both. The second file's handler tells the two apart and answers 500.
\<close>

lemma PostHandler_Parse_error:
  "sl slug = Inr doc \<Longrightarrow> frontmatter_Parse W doc PostData_zero = Inl err \<Longrightarrow>
     PostHandler W sl slug = String_response StatusNotFound ''Post not found'' []"
  by (simp add: PostHandler_def readAndParse_def)

lemma PostHandler_000_Parse_error:
  "sl slug = Inr doc \<Longrightarrow> frontmatter_Parse W doc PostData_000_zero = Inl err \<Longrightarrow>
     PostHandler_000 W sl slug =
       String_response StatusInternalServerError ''Error parsing frontmatter'' [err]"
  by (simp add: PostHandler_000_def)

lemma PostHandler_Convert_error:
  "sl slug = Inr doc \<Longrightarrow> frontmatter_Parse W doc PostData_zero = Inr (post, rest) \<Longrightarrow>
   mdRenderer W rest = Inl err \<Longrightarrow>
     PostHandler W sl slug =
       String_response StatusInternalServerError ''Error rendering markdown'' []"
  by (simp add: PostHandler_def readAndParse_def renderMarkdown_def)

lemma PostHandler_000_Convert_error:
  "sl slug = Inr doc \<Longrightarrow> frontmatter_Parse W doc PostData_000_zero = Inr (post, rest) \<Longrightarrow>
   mdRenderer W rest = Inl err \<Longrightarrow>
     PostHandler_000 W sl slug =
       String_response StatusInternalServerError ''Error rendering markdown'' []"
  by (simp add: PostHandler_000_def)

lemma PostHandler_post:
  "sl slug = Inr doc \<Longrightarrow> frontmatter_Parse W doc PostData_zero = Inr (post, rest) \<Longrightarrow>
   mdRenderer W rest = Inr html \<Longrightarrow>
     PostHandler W sl slug = HTML_response StatusOK ''post.html'' (post\<lparr>Content := html\<rparr>)"
  by (simp add: PostHandler_def readAndParse_def renderMarkdown_def)

lemma PostHandler_000_post:
  "sl slug = Inr doc \<Longrightarrow> frontmatter_Parse W doc PostData_000_zero = Inr (post, rest) \<Longrightarrow>
   mdRenderer W rest = Inr html \<Longrightarrow>
     PostHandler_000 W sl slug = HTML_response StatusOK ''post.html'' (post\<lparr>Content := html\<rparr>)"
  by (simp add: PostHandler_000_def)

text \<open>
  C7. For every slug with no source document, the single-post handler answers 404 with a
  plain-text body, and no post reaches the template: the response is the text response,
  which carries no \<open>PostData\<close>. This holds for the handler of either file, reading through
  \<open>FileReader.Read\<close>.
\<close>

theorem missing_document_404:
  assumes "os_Open (''markdown/'' @ slug @ ''.md'') = Inl ErrNotExist"
  shows "PostHandler W (FileReader_Read os_Open) slug =
           String_response 404 ''Post not found'' [] \<and>
         PostHandler_000 W' (FileReader_Read os_Open) slug =
           String_response 404 ''Post not found'' [ErrNotExist] \<and>
         plain_text (PostHandler W (FileReader_Read os_Open) slug) \<and>
         plain_text (PostHandler_000 W' (FileReader_Read os_Open) slug)"
proof -
  have "FileReader_Read os_Open slug = Inl ErrNotExist"
    using assms by (rule FileReader_Read_Open_error)
  then show ?thesis
    by (simp add: PostHandler_Read_error PostHandler_000_Read_error StatusNotFound_def)
qed

theorem missing_document_404_witness:
  "demo_Open (''markdown/'' @ ''nope'' @ ''.md'') = Inl ErrNotExist \<and>
   PostHandler demo_world (FileReader_Read demo_Open) ''nope'' =
     String_response 404 ''Post not found'' [] \<and>
   PostHandler_000 demo_world_000 (FileReader_Read demo_Open) ''nope'' =
     String_response 404 ''Post not found'' [ErrNotExist]"
proof -
  have absent: "demo_Open (''markdown/'' @ ''nope'' @ ''.md'') = Inl ErrNotExist"
    by (simp add: demo_Open_def demo_files_def)
  show ?thesis
    using absent missing_document_404 [of demo_Open "''nope''" demo_world demo_world_000]
    by simp
qed

text \<open>
  C1. A document that is read and whose metadata block does not decode should be answered
  with 500 and a plain text, and 404 should be kept for a missing document. At
  \<open>broken.md\<close>, whose block the decoder refuses, the second file's handler answers
  500 \<open>Error parsing frontmatter\<close>, and \<open>server.go\<close>'s handler answers 404
  \<open>Post not found\<close>. (\<open>PostHandler_Parse_error\<close> and \<open>PostHandler_000_Parse_error\<close>
  say the same of every such document.)
\<close>

theorem malformed_metadata_status:
  "FileReader_Read demo_Open ''broken'' = Inr doc_broken \<and>
   frontmatter_Parse demo_world doc_broken PostData_zero =
     Inl (ErrMalformed ''yaml: did not find expected node content'') \<and>
   PostHandler demo_world (FileReader_Read demo_Open) ''broken'' =
     String_response 404 ''Post not found'' [] \<and>
   frontmatter_Parse demo_world_000 doc_broken PostData_000_zero =
     Inl (ErrMalformed ''yaml: did not find expected node content'') \<and>
   PostHandler_000 demo_world_000 (FileReader_Read demo_Open) ''broken'' =
     String_response 500 ''Error parsing frontmatter''
       [ErrMalformed ''yaml: did not find expected node content'']"
proof -
  have read: "FileReader_Read demo_Open ''broken'' = Inr doc_broken"
    by (simp add: FileReader_Read_def io_ReadAll_def demo_Open_def demo_files_def)
  have parse: "frontmatter_Parse demo_world doc_broken PostData_zero =
      Inl (ErrMalformed ''yaml: did not find expected node content'')"
    by (simp add: demo_world_def frontmatter_Parse_by_def yaml_Unmarshal_by_def demo_extract_def
        demo_yaml_def doc_broken_def doc_dated_def block_broken_def block_dated_def LF_def)
  have parse_000: "frontmatter_Parse demo_world_000 doc_broken PostData_000_zero =
      Inl (ErrMalformed ''yaml: did not find expected node content'')"
    by (simp add: demo_world_000_def frontmatter_Parse_by_def yaml_Unmarshal_by_def
        demo_extract_def demo_yaml_def doc_broken_def doc_dated_def block_broken_def
        block_dated_def LF_def)
  show ?thesis
    using read parse parse_000
      PostHandler_Parse_error [of "FileReader_Read demo_Open" "''broken''" doc_broken demo_world]
      PostHandler_000_Parse_error
        [of "FileReader_Read demo_Open" "''broken''" doc_broken demo_world_000]
    by (simp add: status_defs)
qed

text \<open>
  C10. Every error of \<open>Read\<close>, a refused permission on an existing file too, should be
  answered with 404 and the body \<open>Post not found\<close>, never with 500. Both handlers answer
  404 to every such error (\<open>PostHandler_Read_error\<close>, \<open>PostHandler_000_Read_error\<close>).
  At \<open>locked.md\<close> the body \<open>server.go\<close> sends is \<open>Post not found\<close>; the second file hands
  the error to a format without a verb, and its body goes on after \<open>Post not found\<close>.
\<close>

theorem read_error_body:
  "FileReader_Read demo_Open ''locked'' = Inl ErrPermission \<and>
   status (PostHandler demo_world (FileReader_Read demo_Open) ''locked'') = 404 \<and>
   String_text operand (PostHandler demo_world (FileReader_Read demo_Open) ''locked'') =
     Some ''Post not found'' \<and>
   status (PostHandler_000 demo_world_000 (FileReader_Read demo_Open) ''locked'') = 404 \<and>
   String_text operand (PostHandler_000 demo_world_000 (FileReader_Read demo_Open) ''locked'') =
     Some (''Post not found%!(EXTRA '' @ operand ErrPermission @ '')'')"
proof -
  have read: "FileReader_Read demo_Open ''locked'' = Inl ErrPermission"
    by (simp add: FileReader_Read_def demo_Open_def demo_files_def)
  show ?thesis
    using read
      PostHandler_Read_error [of "FileReader_Read demo_Open" "''locked''" ErrPermission demo_world]
      PostHandler_000_Read_error
        [of "FileReader_Read demo_Open" "''locked''" ErrPermission demo_world_000]
    by (simp add: status_defs String_body_def)
qed

subsection \<open>The path that Read opens\<close>

lemma segments_no_slash: "CHR ''/'' \<notin> set s \<Longrightarrow> segments s = [s]"
  by (induction s) auto

lemma segments_append_slash:
  "CHR ''/'' \<notin> set a \<Longrightarrow> segments (a @ CHR ''/'' # b) = a # segments b"
  by (induction a) auto

lemma leads_to_parent:
  assumes "CHR ''/'' \<notin> set name"
  shows "leads_to (''markdown/'' @ (''../'' @ name) @ ''.md'') = [name @ ''.md'']"
proof -
  have last_name: "segments (name @ ''.md'') = [name @ ''.md'']"
    using assms by (simp add: segments_no_slash)
  have "''markdown/'' @ (''../'' @ name) @ ''.md'' =
      ''markdown'' @ CHR ''/'' # (''..'' @ CHR ''/'' # (name @ ''.md''))"
    by simp
  then have "segments (''markdown/'' @ (''../'' @ name) @ ''.md'') =
      [''markdown'', ''..'', name @ ''.md'']"
    by (simp add: segments_append_slash last_name)
  moreover have "name @ ''.md'' \<noteq> []" "name @ ''.md'' \<noteq> ''.''" "name @ ''.md'' \<noteq> ''..''"
    by (auto simp add: append_eq_Cons_conv)
  ultimately show ?thesis by (simp add: leads_to_def)
qed

text \<open>
  C9. For every slug, \<open>FileReader.Read\<close> reads the path \<open>markdown/\<close> + slug + \<open>.md\<close> and
  no other, whatever the slug holds: its result is what the file system has at that path,
  and two file systems that agree there give the same result. A slug \<open>../name\<close> leads to
  the file \<open>name.md\<close> beside the directory \<open>markdown\<close>, not inside it, and the empty slug
  reads \<open>markdown/.md\<close>.
\<close>

theorem Read_opens_the_slug_path:
  "FileReader_Read os_Open slug =
     (case os_Open (''markdown/'' @ slug @ ''.md'') of Inl err \<Rightarrow> Inl err | Inr fr \<Rightarrow> fr) \<and>
   (os_Open' (''markdown/'' @ slug @ ''.md'') = os_Open (''markdown/'' @ slug @ ''.md'') \<longrightarrow>
      FileReader_Read os_Open' slug = FileReader_Read os_Open slug) \<and>
   (CHR ''/'' \<notin> set name \<longrightarrow>
      leads_to (''markdown/'' @ (''../'' @ name) @ ''.md'') = [name @ ''.md''] \<and>
      \<not> inside_markdown (''markdown/'' @ (''../'' @ name) @ ''.md'')) \<and>
   FileReader_Read os_Open [] =
     (case os_Open ''markdown/.md'' of Inl err \<Rightarrow> Inl err | Inr fr \<Rightarrow> fr)"
proof -
  have outside: "leads_to (''markdown/'' @ (''../'' @ name) @ ''.md'') = [name @ ''.md''] \<and>
      \<not> inside_markdown (''markdown/'' @ (''../'' @ name) @ ''.md'')"
    if "CHR ''/'' \<notin> set name"
  proof -
    from leads_to_parent [OF that]
    have l: "leads_to (''markdown/'' @ (''../'' @ name) @ ''.md'') = [name @ ''.md'']" .
    have "\<not> inside_markdown (''markdown/'' @ (''../'' @ name) @ ''.md'')"
      unfolding inside_markdown_def l by simp
    with l show ?thesis by blast
  qed
  show ?thesis
    using FileReader_Read_content [of os_Open slug] FileReader_Read_content [of os_Open' slug]
      FileReader_Read_content [of os_Open "[]"] outside
    by auto
qed

theorem Read_opens_the_slug_path_witness:
  "other_Open (''markdown/'' @ ''locked'' @ ''.md'') = demo_Open (''markdown/'' @ ''locked'' @ ''.md'') \<and>
   FileReader_Read other_Open ''locked'' = FileReader_Read demo_Open ''locked'' \<and>
   FileReader_Read demo_Open ''locked'' = Inl ErrPermission \<and>
   CHR ''/'' \<notin> set ''secret'' \<and>
   leads_to (''markdown/'' @ (''../'' @ ''secret'') @ ''.md'') = [''secret.md''] \<and>
   \<not> inside_markdown (''markdown/'' @ (''../'' @ ''secret'') @ ''.md'') \<and>
   leads_to ''markdown/../../etc/passwd.md'' = [''..'', ''etc'', ''passwd.md''] \<and>
   FileReader_Read demo_Open [] = Inl ErrNotExist"
proof -
  have no_slash: "CHR ''/'' \<notin> set ''secret''" by simp
  have agree: "other_Open (''markdown/'' @ ''locked'' @ ''.md'') =
      demo_Open (''markdown/'' @ ''locked'' @ ''.md'')"
    by (simp add: other_Open_def demo_Open_def demo_files_def)
  have up: "leads_to ''markdown/../../etc/passwd.md'' = [''..'', ''etc'', ''passwd.md'']"
    by (simp add: leads_to_def)
  show ?thesis
    using no_slash agree up
      Read_opens_the_slug_path [of demo_Open "''locked''" other_Open "''secret''"]
    by (simp add: demo_Open_def demo_files_def)
qed

subsection \<open>The keys of the metadata block\<close>

lemma set_PostData_field_strings:
  "set_PostData_field to_int ''Title'' (YScalar s) p = Inr (p\<lparr>Title := s\<rparr>)"
  "set_PostData_field to_int ''Slug'' (YScalar s) p = Inr (p\<lparr>Slug := s\<rparr>)"
  "set_PostData_field to_int ''Description'' (YScalar s) p = Inr (p\<lparr>Description := s\<rparr>)"
  "set_PostData_field to_int ''MetaDescription'' (YScalar s) p = Inr (p\<lparr>MetaDescription := s\<rparr>)"
  "set_PostData_field to_int ''MetaPropertyTitle'' (YScalar s) p =
     Inr (p\<lparr>MetaPropertyTitle := s\<rparr>)"
  "set_PostData_field to_int ''MetaPropertyDescription'' (YScalar s) p =
     Inr (p\<lparr>MetaPropertyDescription := s\<rparr>)"
  "set_PostData_field to_int ''MetaOgURL'' (YScalar s) p = Inr (p\<lparr>MetaOgURL := s\<rparr>)"
  by (simp_all add: set_PostData_field_def string_field_def)

lemma set_PostData_field_Order:
  "to_int s = Some i \<Longrightarrow> set_PostData_field to_int ''Order'' (YScalar s) p = Inr (p\<lparr>Order := i\<rparr>)"
  by (simp add: set_PostData_field_def int_field_def)

lemma set_PostData_field_author:
  "set_PostData_field to_int ''author''
     (YMapping [(''name'', YScalar n), (''email'', YScalar m)]) p =
   Inr (p\<lparr>Author := (Author p)\<lparr>Name := n, Email := m\<rparr>\<rparr>)"
  by (simp add: set_PostData_field_def decode_Author_def set_Author_field_def string_field_def)

lemma set_PostData_field_unknown:
  "k \<notin> {''Title'', ''Slug'', ''Description'', ''Order'', ''MetaDescription'', ''MetaPropertyTitle'',
         ''MetaPropertyDescription'', ''MetaOgURL'', ''author'', ''content''} \<Longrightarrow>
   set_PostData_field to_int k v p = Inr p"
  by (simp add: set_PostData_field_def)

text \<open>
  \<open>Date\<close> is a key of the second file's \<open>PostData\<close> alone; every other key is decoded as
  \<open>server.go\<close> decodes it. In \<open>server.go\<close> the struct has no field for it, and the key is
  one of the unknown keys.
\<close>

lemma set_PostData_field_Date: "set_PostData_field to_int ''Date'' v p = Inr p"
  by (simp add: set_PostData_field_def)

lemma set_PostData_000_field_Date:
  "set_PostData_000_field to_int ''Date'' (YScalar s) p = Inr (p\<lparr>Date := s\<rparr>)"
  by (simp add: set_PostData_000_field_def string_field_def)

lemma set_PostData_000_field_other:
  "k \<noteq> ''Date'' \<Longrightarrow> set_PostData_000_field to_int k v p = set_PostData_field to_int k v p"
  by (simp add: set_PostData_000_field_def)

text \<open>
  C4. Single-post assembly should decode every recognized key of a well-formed block,
  \<open>Date\<close> among them, into its field, ignore unknown keys and leave the fields of absent
  keys at zero. At \<open>dated.md\<close>, whose block has \<open>Title\<close>, \<open>Date\<close> and \<open>Order\<close>, the post
  of the second file's handler has all three; the post of \<open>server.go\<close>'s handler has
  \<open>Title\<close> and \<open>Order\<close>, and the date is lost.
\<close>

theorem Date_key_decoded:
  "set_PostData_field to_int ''Date'' (YScalar ''2024-05-01'') PostData_zero = Inr PostData_zero \<and>
   FileReader_Read demo_Open ''dated'' = Inr doc_dated \<and>
   PostHandler demo_world (FileReader_Read demo_Open) ''dated'' =
     HTML_response 200 ''post.html''
       (PostData_zero\<lparr>Title := ''T'', Order := 3, Content := ''<p>Hello</p>'' @ [LF]\<rparr>) \<and>
   PostHandler_000 demo_world_000 (FileReader_Read demo_Open) ''dated'' =
     HTML_response 200 ''post.html''
       (PostData_000_zero\<lparr>Title := ''T'', Order := 3, Content := ''<p>Hello</p>'' @ [LF],
          Date := ''2024-05-01''\<rparr>)"
proof -
  have read: "FileReader_Read demo_Open ''dated'' = Inr doc_dated"
    by (simp add: FileReader_Read_def io_ReadAll_def demo_Open_def demo_files_def)
  have parse: "frontmatter_Parse demo_world doc_dated PostData_zero =
      Inr (PostData_zero\<lparr>Title := ''T'', Order := 3\<rparr>, ''Hello'')"
    by (simp add: demo_world_def frontmatter_Parse_by_def yaml_Unmarshal_by_def demo_extract_def
        demo_yaml_def demo_int_def decode_PostData_def set_PostData_field_def string_field_def
        int_field_def block_dated_def doc_dated_def LF_def)
  have parse_000: "frontmatter_Parse demo_world_000 doc_dated PostData_000_zero =
      Inr (PostData_000_zero\<lparr>Title := ''T'', Date := ''2024-05-01'', Order := 3\<rparr>, ''Hello'')"
    by (simp add: demo_world_000_def frontmatter_Parse_by_def yaml_Unmarshal_by_def
        demo_extract_def demo_yaml_def demo_int_def decode_PostData_000_def
        set_PostData_000_field_def set_PostData_field_def string_field_def int_field_def
        block_dated_def doc_dated_def LF_def)
  have convert: "mdRenderer demo_world ''Hello'' = Inr (''<p>Hello</p>'' @ [LF])"
    "mdRenderer demo_world_000 ''Hello'' = Inr (''<p>Hello</p>'' @ [LF])"
    by (simp_all add: demo_world_def demo_world_000_def demo_md_def LF_def)
  show ?thesis
    using read
      PostHandler_post
        [of "FileReader_Read demo_Open" "''dated''" doc_dated demo_world, OF read parse convert(1)]
      PostHandler_000_post
        [of "FileReader_Read demo_Open" "''dated''" doc_dated demo_world_000,
         OF read parse_000 convert(2)]
    by (simp add: set_PostData_field_Date status_defs)
qed

section \<open>The listing\<close>

subsection \<open>Splitting a document\<close>

lemma SplitN_2:
  "SplitN s sep 2 = (case Cut s sep of None \<Rightarrow> [s] | Some (before, after) \<Rightarrow> [before, after])"
  by (simp add: numeral_2_eq_2 split: option.splits)

lemma Cut_Some: "Cut s sep = Some (a, b) \<Longrightarrow> s = a @ sep @ b"
proof (induction s arbitrary: a)
  case Nil
  then show ?case by (simp split: if_splits)
next
  case (Cons c cs)
  show ?case
  proof (cases "prefix sep (c # cs)")
    case True
    with Cons.prems have ab: "a = []" "b = drop (length sep) (c # cs)" by simp_all
    from True obtain rest where "c # cs = sep @ rest" by (auto elim: prefixE)
    with ab show ?thesis by simp
  next
    case False
    with Cons.prems obtain a' where "Cut cs sep = Some (a', b)" and "a = c # a'"
      by (auto split: option.splits)
    with Cons.IH show ?thesis by simp
  qed
qed

lemma lines_of_not_Nil: "lines_of s \<noteq> []"
  by (induction s) (auto split: list.splits)

lemma lines_of_append_LF: "lines_of (a @ LF # b) = lines_of a @ lines_of b"
proof (induction a)
  case Nil
  then show ?case by simp
next
  case (Cons c cs)
  obtain l ls where "lines_of cs = l # ls"
    using lines_of_not_Nil [of cs] by (cases "lines_of cs") auto
  with Cons show ?case by simp
qed

lemma lines_of_delimiter: "lines_of ''---'' = [''---'']"
  by (simp add: LF_def)

lemma lines_of_separator: "lines_of (a @ separator @ b) = lines_of a @ ''---'' # lines_of b"
proof -
  have "a @ separator @ b = a @ LF # (''---'' @ LF # b)"
    by (simp add: separator_def)
  then show ?thesis
    by (simp only: lines_of_append_LF lines_of_delimiter) simp
qed

text \<open>
  A document that is cut has a delimiter line between the two parts, and its first line
  is the first line of the part before the cut.
\<close>

lemma delimiter_lines_Cut:
  assumes "Cut content separator = Some (before, after)"
  shows "delimiter_lines content = delimiter_lines before + 1 + delimiter_lines after"
    and "\<exists>l ls. lines_of before = l # ls \<and> lines_of content = l # ls @ ''---'' # lines_of after"
proof -
  from assms have content: "content = before @ separator @ after" by (rule Cut_Some)
  then show "delimiter_lines content = delimiter_lines before + 1 + delimiter_lines after"
    by (simp add: delimiter_lines_def lines_of_separator)
  obtain l ls where "lines_of before = l # ls"
    using lines_of_not_Nil [of before] by (cases "lines_of before") auto
  with content show "\<exists>l ls. lines_of before = l # ls \<and>
      lines_of content = l # ls @ ''---'' # lines_of after"
    by (simp add: lines_of_separator)
qed

lemma delimiter_lines_member: "''---'' \<in> set (lines_of s) \<Longrightarrow> 1 \<le> delimiter_lines s"
proof -
  assume "''---'' \<in> set (lines_of s)"
  then have "filter (\<lambda>l. l = ''---'') (lines_of s) \<noteq> []"
    by (auto simp add: filter_empty_conv)
  then show ?thesis
    by (cases "filter (\<lambda>l. l = ''---'') (lines_of s)") (simp_all add: delimiter_lines_def)
qed

text \<open>
  A document whose one delimiter line is its first or its last line is not cut: a cut
  would leave a second delimiter line, before it or after it.
\<close>

lemma edge_delimiter_only:
  assumes "delimiter_lines content = 1"
    and "lines_of content = ''---'' # rest \<or> lines_of content = front @ [''---'']"
  shows "Cut content separator = None"
proof (cases "Cut content separator")
  case None
  then show ?thesis .
next
  case (Some ab)
  obtain before after where ab: "ab = (before, after)" by (cases ab)
  from Some ab have cut: "Cut content separator = Some (before, after)" by simp
  from delimiter_lines_Cut(2) [OF cut] obtain l ls where before: "lines_of before = l # ls"
    and content: "lines_of content = l # ls @ ''---'' # lines_of after"
    by blast
  have "1 \<le> delimiter_lines before \<or> 1 \<le> delimiter_lines after"
    using assms(2)
  proof
    assume "lines_of content = ''---'' # rest"
    with content have "l = ''---''" by simp
    with before have "''---'' \<in> set (lines_of before)" by simp
    then have "1 \<le> delimiter_lines before" by (rule delimiter_lines_member)
    then show ?thesis by blast
  next
    assume "lines_of content = front @ [''---'']"
    then have "last (lines_of content) = ''---''" by simp
    with content have "last (lines_of after) = ''---''"
      by (simp add: lines_of_not_Nil)
    then have "''---'' \<in> set (lines_of after)"
      using last_in_set [of "lines_of after"] by (simp add: lines_of_not_Nil)
    then have "1 \<le> delimiter_lines after" by (rule delimiter_lines_member)
    then show ?thesis by blast
  qed
  with delimiter_lines_Cut(1) [OF cut] assms(1) show ?thesis by simp
qed

subsection \<open>One call of the function given to Walk\<close>

lemma walkFn_error: "walkFn W z path info (Some e) posts = (Some e, posts)"
  by (simp add: walkFn_def)

lemma walkFn_other:
  "\<not> markdown_file (path, info, None) \<Longrightarrow> walkFn W z path info None posts = (None, posts)"
  by (auto simp add: walkFn_def markdown_file_def)

lemma walkFn_markdown:
  "markdown_file (path, info, None) \<Longrightarrow>
   walkFn W z path info None posts =
     (case os_ReadFile W path of
        Inl e \<Rightarrow> (Some e, posts)
      | Inr content \<Rightarrow>
          (case Cut content separator of
             None \<Rightarrow>
               (case md W content of
                  Inl e \<Rightarrow> (Some e, posts)
                | Inr buf \<Rightarrow> (None, posts @ [z\<lparr>Content := buf\<rparr>]))
           | Some (before, after) \<Rightarrow>
               (case yaml_Unmarshal W before z of
                  Inl e \<Rightarrow> (Some e, posts)
                | Inr postData \<Rightarrow>
                    (case md W after of
                       Inl e \<Rightarrow> (Some e, posts)
                     | Inr buf \<Rightarrow> (None, posts @ [postData\<lparr>Content := buf\<rparr>])))))"
  by (simp add: walkFn_def markdown_file_def SplitN_2 Let_def split: sum.splits option.splits)

lemma walkFn_document_error:
  "markdown_file (path, info, None) \<Longrightarrow>
   fst (walkFn W z path info None posts) = document_error W z path"
  by (simp add: walkFn_markdown document_error_def split: sum.splits option.splits)

lemma walkFn_acc:
  "walkFn W z path info err acc =
     (case walkFn W z path info err [] of (r, new) \<Rightarrow> (r, acc @ new))"
  by (simp add: walkFn_def Let_def split: option.splits sum.splits)

lemma walkFn_new:
  assumes "walkFn W z path info err [] = (None, new)"
  shows "if markdown_file (path, info, err) then \<exists>p. new = [p] else new = []"
  using assms
  by (auto simp add: walkFn_def markdown_file_def Let_def split: option.splits sum.splits if_splits)

lemma post_of_visit_rendered: "post_of_visit W z v p \<Longrightarrow> rendered W v p"
  by (auto simp add: post_of_visit_def rendered_def walkFn_def body_block_def SplitN_2 Let_def
      split: prod.splits option.splits sum.splits if_splits)

subsection \<open>The whole walk\<close>

lemma Walk_append:
  "filepath_Walk (xs @ ys) fn s =
     (case filepath_Walk xs fn s of
        (Some e, s') \<Rightarrow> (Some e, s')
      | (None, s') \<Rightarrow> filepath_Walk ys fn s')"
  by (induction xs arbitrary: s) (auto split: prod.splits option.splits)

lemma Walk_posts:
  "filepath_Walk dir (walkFn W z) acc = (None, posts) \<Longrightarrow>
   \<exists>new. posts = acc @ new \<and> list_all2 (post_of_visit W z) (filter markdown_file dir) new"
proof (induction dir arbitrary: acc)
  case Nil
  then show ?case by simp
next
  case (Cons v rest)
  obtain path info err where v: "v = (path, info, err)" by (cases v)
  obtain r new0 where step: "walkFn W z path info err [] = (r, new0)"
    by (cases "walkFn W z path info err []")
  then have step_acc: "walkFn W z path info err acc = (r, acc @ new0)"
    by (simp add: walkFn_acc [of W z path info err acc])
  from Cons.prems v step_acc have r: "r = None"
    and rest: "filepath_Walk rest (walkFn W z) (acc @ new0) = (None, posts)"
    by (auto split: option.splits)
  from Cons.IH [OF rest] obtain new where posts: "posts = (acc @ new0) @ new"
    and all: "list_all2 (post_of_visit W z) (filter markdown_file rest) new"
    by blast
  from step r have shape: "if markdown_file (path, info, err) then \<exists>p. new0 = [p] else new0 = []"
    by (simp add: walkFn_new)
  show ?case
  proof (cases "markdown_file (path, info, err)")
    case True
    with shape obtain p where p: "new0 = [p]" by auto
    with step r have "post_of_visit W z (path, info, err) p"
      by (simp add: post_of_visit_def)
    with all True p posts v show ?thesis by auto
  next
    case False
    with shape have "new0 = []" by simp
    with all False posts v show ?thesis by auto
  qed
qed

lemma loadMarkdownPosts_posts:
  "loadMarkdownPosts W z dir = Inr posts \<Longrightarrow>
   list_all2 (post_of_visit W z) (filter markdown_file dir) posts"
proof -
  assume "loadMarkdownPosts W z dir = Inr posts"
  then have "filepath_Walk dir (walkFn W z) [] = (None, posts)"
    by (auto simp add: loadMarkdownPosts_def split: prod.splits option.splits)
  from Walk_posts [OF this] show ?thesis by simp
qed

lemma Walk_valid:
  "\<forall>v\<in>set dir. valid_visit W z v \<Longrightarrow> \<exists>posts. filepath_Walk dir (walkFn W z) acc = (None, posts)"
proof (induction dir arbitrary: acc)
  case Nil
  then show ?case by simp
next
  case (Cons v rest)
  obtain path info err where v: "v = (path, info, err)" by (cases v)
  from Cons.prems v have err: "err = None"
    and doc: "markdown_file (path, info, None) \<Longrightarrow> document_error W z path = None"
    by (auto simp add: valid_visit_def)
  have "fst (walkFn W z path info None acc) = None"
  proof (cases "markdown_file (path, info, None)")
    case True
    then show ?thesis by (simp add: walkFn_document_error doc)
  next
    case False
    then show ?thesis by (simp add: walkFn_other)
  qed
  then obtain s' where "walkFn W z path info None acc = (None, s')"
    by (cases "walkFn W z path info None acc") simp
  moreover from Cons.prems have "\<forall>v\<in>set rest. valid_visit W z v" by simp
  from Cons.IH [OF this] obtain posts where "filepath_Walk rest (walkFn W z) s' = (None, posts)"
    by blast
  ultimately show ?case using v err by simp
qed

subsection \<open>One failure fails the listing\<close>

text \<open>
  C3. If a document of the walk fails at any stage (read, metadata decode or conversion),
  the listing fails and returns no posts, whatever was collected before; and when nothing
  fails before that document, the listing fails with that document's error.
\<close>

theorem listing_all_or_nothing:
  assumes "dir = before @ (path, info, None) # after"
    and "markdown_file (path, info, None)"
    and "document_error W z path = Some e"
  shows "(\<exists>e'. loadMarkdownPosts W z dir = Inl e') \<and>
         (fst (filepath_Walk before (walkFn W z) []) = None \<longrightarrow>
            loadMarkdownPosts W z dir = Inl e)"
proof -
  obtain r s where before: "filepath_Walk before (walkFn W z) [] = (r, s)"
    by (cases "filepath_Walk before (walkFn W z) []")
  have "fst (walkFn W z path info None s) = Some e"
    using assms(2,3) by (simp add: walkFn_document_error)
  then obtain s' where here: "walkFn W z path info None s = (Some e, s')"
    by (cases "walkFn W z path info None s") simp
  show ?thesis
  proof (cases r)
    case None
    with before here assms(1) have "filepath_Walk dir (walkFn W z) [] = (Some e, s')"
      by (simp add: Walk_append)
    with None before show ?thesis by (simp add: loadMarkdownPosts_def)
  next
    case (Some e')
    with before assms(1) have "filepath_Walk dir (walkFn W z) [] = (Some e', s)"
      by (simp add: Walk_append)
    with Some before show ?thesis by (simp add: loadMarkdownPosts_def)
  qed
qed

lemma document_error_bad:
  "document_error demo_world PostData_zero ''markdown/bad.md'' =
     Some (ErrMalformed ''yaml: did not find expected node content'')"
  by (simp add: document_error_def demo_defs)

lemma walk_before_bad:
  "filepath_Walk [(''./markdown'', markdown_dir, None), (''markdown/a.md'', regular ''a.md'', None)]
     (walkFn demo_world PostData_zero) [] =
   (None, [PostData_zero\<lparr>Title := ''A'', Content := ''<p>body</p>'' @ [LF]\<rparr>])"
  by (simp add: walkFn_def SplitN_2 Let_def demo_defs)

theorem listing_all_or_nothing_witness:
  "demo_dir_bad =
     [(''./markdown'', markdown_dir, None), (''markdown/a.md'', regular ''a.md'', None)]
       @ (''markdown/bad.md'', regular ''bad.md'', None)
       # [(''markdown/b.md'', regular ''b.md'', None)] \<and>
   markdown_file (''markdown/bad.md'', regular ''bad.md'', None) \<and>
   document_error demo_world PostData_zero ''markdown/bad.md'' =
     Some (ErrMalformed ''yaml: did not find expected node content'') \<and>
   fst (filepath_Walk
          [(''./markdown'', markdown_dir, None), (''markdown/a.md'', regular ''a.md'', None)]
          (walkFn demo_world PostData_zero) []) = None \<and>
   loadMarkdownPosts demo_world PostData_zero demo_dir_bad =
     Inl (ErrMalformed ''yaml: did not find expected node content'')"
proof -
  have dir: "demo_dir_bad =
     [(''./markdown'', markdown_dir, None), (''markdown/a.md'', regular ''a.md'', None)]
       @ (''markdown/bad.md'', regular ''bad.md'', None)
       # [(''markdown/b.md'', regular ''b.md'', None)]"
    by (simp add: demo_dir_bad_def)
  have is_file: "markdown_file (''markdown/bad.md'', regular ''bad.md'', None)"
    by (simp add: markdown_file_def regular_def HasSuffix_def)
  show ?thesis
    using dir is_file document_error_bad walk_before_bad
      listing_all_or_nothing [OF dir is_file document_error_bad]
    by simp
qed

subsection \<open>As many posts as Markdown files\<close>

text \<open>
  C5, as stated, fails: \<open>blank.md\<close> is a valid Markdown file whose body block is a line
  feed and not empty, and the post of the listing has an empty content, since the
  converter writes nothing for blank lines.
\<close>

theorem blank_body_counterexample:
  "valid_visit demo_world PostData_zero (''./markdown'', markdown_dir, None) \<and>
   valid_visit demo_world PostData_zero (''markdown/blank.md'', regular ''blank.md'', None) \<and>
   os_ReadFile demo_world ''markdown/blank.md'' = Inr doc_blank \<and>
   body_block doc_blank = [LF] \<and>
   loadMarkdownPosts demo_world PostData_zero demo_dir_blank = Inr [PostData_zero] \<and>
   Content PostData_zero = []"
  by (simp add: loadMarkdownPosts_def walkFn_def SplitN_2 Let_def demo_dir_blank_def
      valid_visit_def document_error_def body_block_def PostData_zero_def demo_defs)

text \<open>
  C5, amended. When Walk meets no error and every Markdown file of the walk (a file, not
  a directory, whose name ends in \<open>.md\<close>) is valid, the listing returns, with exactly as
  many posts as there are Markdown files, and the content of each post is what the
  converter wrote for the body block of its document. So the content is not empty
  whenever the converter writes something for the body.
\<close>

theorem listing_count_and_content:
  assumes "\<forall>v\<in>set dir. valid_visit W z v"
  shows "\<exists>posts. loadMarkdownPosts W z dir = Inr posts \<and>
           length posts = length (filter markdown_file dir) \<and>
           list_all2 (rendered W) (filter markdown_file dir) posts"
proof -
  from Walk_valid [OF assms] obtain posts
    where walk: "filepath_Walk dir (walkFn W z) [] = (None, posts)"
    by blast
  then have load: "loadMarkdownPosts W z dir = Inr posts"
    by (simp add: loadMarkdownPosts_def)
  then have all: "list_all2 (post_of_visit W z) (filter markdown_file dir) posts"
    by (rule loadMarkdownPosts_posts)
  then have "list_all2 (rendered W) (filter markdown_file dir) posts"
    by (rule list_all2_mono) (rule post_of_visit_rendered)
  with load all show ?thesis
    by (auto dest: list_all2_lengthD)
qed

lemma demo_dir_valid: "\<forall>v\<in>set demo_dir. valid_visit demo_world PostData_zero v"
  by (simp add: demo_dir_def valid_visit_def document_error_def demo_defs)

theorem listing_count_and_content_witness:
  "list_all (valid_visit demo_world PostData_zero) demo_dir \<and>
   length (filter markdown_file demo_dir) = 2 \<and>
   (\<exists>posts. loadMarkdownPosts demo_world PostData_zero demo_dir = Inr posts \<and>
      length posts = 2 \<and>
      list_all2 (rendered demo_world) (filter markdown_file demo_dir) posts)"
proof -
  have two: "length (filter markdown_file demo_dir) = 2"
    by (simp add: demo_dir_def demo_defs)
  show ?thesis
    using demo_dir_valid two listing_count_and_content [OF demo_dir_valid]
    by (simp add: list_all_iff)
qed

subsection \<open>The order of the posts\<close>

lemma walkFn_with_Order:
  assumes "list_all2 same_but_Order acc acc'"
  shows "rel_prod (=) (list_all2 same_but_Order)
           (walkFn W z path info err acc) (walkFn (with_Order g W) z path info err acc')"
  using assms
  by (auto simp add: walkFn_def with_Order_def Let_def same_but_Order_def
        intro!: list_all2_appendI split: option.splits sum.splits)

lemma Walk_with_Order:
  "list_all2 same_but_Order acc acc' \<Longrightarrow>
   rel_prod (=) (list_all2 same_but_Order)
     (filepath_Walk dir (walkFn W z) acc) (filepath_Walk dir (walkFn (with_Order g W) z) acc')"
proof (induction dir arbitrary: acc acc')
  case Nil
  then show ?case by simp
next
  case (Cons v rest)
  obtain path info err where v: "v = (path, info, err)" by (cases v)
  obtain r s where one: "walkFn W z path info err acc = (r, s)"
    by (cases "walkFn W z path info err acc")
  obtain r' s' where other: "walkFn (with_Order g W) z path info err acc' = (r', s')"
    by (cases "walkFn (with_Order g W) z path info err acc'")
  from walkFn_with_Order [OF Cons.prems, of W z path info err g] one other
  have same: "r' = r" and rel: "list_all2 same_but_Order s s'"
    by simp_all
  show ?case
  proof (cases r)
    case None
    with Cons.IH [OF rel] v one other same show ?thesis by simp
  next
    case (Some e)
    with v one other same rel show ?thesis by simp
  qed
qed

lemma loadMarkdownPosts_with_Order:
  "rel_sum (=) (list_all2 same_but_Order)
     (loadMarkdownPosts W z dir) (loadMarkdownPosts (with_Order g W) z dir)"
proof -
  have "rel_prod (=) (list_all2 same_but_Order)
      (filepath_Walk dir (walkFn W z) []) (filepath_Walk dir (walkFn (with_Order g W) z) [])"
    by (rule Walk_with_Order) simp
  then show ?thesis
    by (auto simp add: loadMarkdownPosts_def split: prod.splits option.splits)
qed

text \<open>
  C6. The posts of the listing stand in the order of the walk: the posts are, one for
  one and in Walk's order, the posts that the calls for the Markdown files append. The
  \<open>Order\<close> field has no part in it: whatever \<open>Order\<close> the decoder gives to the documents,
  the listing returns the same posts at the same places, but for their \<open>Order\<close>.
\<close>

theorem listing_in_walk_order:
  assumes "loadMarkdownPosts W z dir = Inr posts"
  shows "list_all2 (post_of_visit W z) (filter markdown_file dir) posts \<and>
         (\<exists>posts'. loadMarkdownPosts (with_Order g W) z dir = Inr posts' \<and>
            list_all2 same_but_Order posts posts')"
proof -
  have "rel_sum (=) (list_all2 same_but_Order)
      (loadMarkdownPosts W z dir) (loadMarkdownPosts (with_Order g W) z dir)"
    by (rule loadMarkdownPosts_with_Order)
  with assms obtain posts' where "loadMarkdownPosts (with_Order g W) z dir = Inr posts'"
    and "list_all2 same_but_Order posts posts'"
    by (cases "loadMarkdownPosts (with_Order g W) z dir") auto
  with loadMarkdownPosts_posts [OF assms] show ?thesis by blast
qed

lemma load_demo_dir:
  "loadMarkdownPosts demo_world PostData_zero demo_dir =
     Inr [PostData_zero\<lparr>Title := ''A'', Content := ''<p>body</p>'' @ [LF]\<rparr>,
          PostData_zero\<lparr>Content := ''<p>plain</p>'' @ [LF]\<rparr>]"
  by (simp add: loadMarkdownPosts_def walkFn_def SplitN_2 Let_def demo_dir_def demo_defs)

lemma load_demo_dir_with_Order:
  "loadMarkdownPosts (with_Order demo_Order demo_world) PostData_zero demo_dir =
     Inr [PostData_zero\<lparr>Title := ''A'', Order := 7, Content := ''<p>body</p>'' @ [LF]\<rparr>,
          PostData_zero\<lparr>Content := ''<p>plain</p>'' @ [LF]\<rparr>]"
  by (simp add: loadMarkdownPosts_def walkFn_def SplitN_2 Let_def demo_dir_def with_Order_def
      demo_Order_def demo_defs)

theorem listing_in_walk_order_witness:
  "loadMarkdownPosts demo_world PostData_zero demo_dir =
     Inr [PostData_zero\<lparr>Title := ''A'', Content := ''<p>body</p>'' @ [LF]\<rparr>,
          PostData_zero\<lparr>Content := ''<p>plain</p>'' @ [LF]\<rparr>] \<and>
   list_all2 (post_of_visit demo_world PostData_zero) (filter markdown_file demo_dir)
     [PostData_zero\<lparr>Title := ''A'', Content := ''<p>body</p>'' @ [LF]\<rparr>,
      PostData_zero\<lparr>Content := ''<p>plain</p>'' @ [LF]\<rparr>] \<and>
   loadMarkdownPosts (with_Order demo_Order demo_world) PostData_zero demo_dir =
     Inr [PostData_zero\<lparr>Title := ''A'', Order := 7, Content := ''<p>body</p>'' @ [LF]\<rparr>,
          PostData_zero\<lparr>Content := ''<p>plain</p>'' @ [LF]\<rparr>] \<and>
   list_all2 same_but_Order
     [PostData_zero\<lparr>Title := ''A'', Content := ''<p>body</p>'' @ [LF]\<rparr>,
      PostData_zero\<lparr>Content := ''<p>plain</p>'' @ [LF]\<rparr>]
     [PostData_zero\<lparr>Title := ''A'', Order := 7, Content := ''<p>body</p>'' @ [LF]\<rparr>,
      PostData_zero\<lparr>Content := ''<p>plain</p>'' @ [LF]\<rparr>]"
  using load_demo_dir load_demo_dir_with_Order
    listing_in_walk_order [OF load_demo_dir, of demo_Order]
  by simp

subsection \<open>A document with one delimiter line\<close>

text \<open>
  C2, as stated, fails: \<open>a.md\<close> has one delimiter line, its second line. The document is
  cut there, the decoder is called on the first line (a decoder that refuses it fails the
  call), the post has the decoded title, and only the text after the delimiter is
  converted.
\<close>

theorem single_delimiter_counterexample:
  "delimiter_lines doc_a = 1 \<and>
   markdown_file (''markdown/a.md'', regular ''a.md'', None) \<and>
   os_ReadFile demo_world ''markdown/a.md'' = Inr doc_a \<and>
   yaml_Unmarshal demo_world ''Title: A'' PostData_zero = Inr (PostData_zero\<lparr>Title := ''A''\<rparr>) \<and>
   walkFn demo_world PostData_zero ''markdown/a.md'' (regular ''a.md'') None [] =
     (None, [PostData_zero\<lparr>Title := ''A'', Content := ''<p>body</p>'' @ [LF]\<rparr>]) \<and>
   walkFn (demo_world\<lparr>yaml_Unmarshal := refusing\<rparr>) PostData_zero
       ''markdown/a.md'' (regular ''a.md'') None [] =
     (Some (ErrMalformed ''refused''), [])"
  by (simp add: walkFn_def SplitN_2 Let_def delimiter_lines_def refusing_def demo_defs)

text \<open>
  C2, amended. For every document whose one delimiter line is its first line (an opening
  delimiter and no closing one) or its last line with no line feed after it, the listing
  treats the document as having no front matter: whatever the decoder is, it is not
  called, the metadata are the zero value, and the whole text is converted as the body.
\<close>

theorem edge_delimiter_is_no_front_matter:
  assumes "delimiter_lines content = 1"
    and "lines_of content = ''---'' # rest \<or> lines_of content = front @ [''---'']"
    and "markdown_file (path, info, None)"
    and "os_ReadFile W path = Inr content"
  shows "walkFn (W\<lparr>yaml_Unmarshal := decoder\<rparr>) z path info None posts =
           (case md W content of
              Inl e \<Rightarrow> (Some e, posts)
            | Inr html \<Rightarrow> (None, posts @ [z\<lparr>Content := html\<rparr>]))"
proof -
  have "Cut content separator = None"
    using assms(1,2) by (rule edge_delimiter_only)
  with assms(3,4) show ?thesis
    by (simp add: walkFn_markdown)
qed

theorem edge_delimiter_is_no_front_matter_witness:
  "delimiter_lines doc_open = 1 \<and>
   lines_of doc_open = ''---'' # [''Title: A'', ''body''] \<and>
   markdown_file (''markdown/open.md'', regular ''open.md'', None) \<and>
   os_ReadFile demo_world ''markdown/open.md'' = Inr doc_open \<and>
   walkFn (demo_world\<lparr>yaml_Unmarshal := refusing\<rparr>) PostData_zero
       ''markdown/open.md'' (regular ''open.md'') None [] =
     (None, [PostData_zero\<lparr>Content := ''<p>'' @ doc_open @ ''</p>'' @ [LF]\<rparr>])"
proof -
  have one: "delimiter_lines doc_open = 1"
    by (simp add: delimiter_lines_def doc_open_def LF_def)
  have first: "lines_of doc_open = ''---'' # [''Title: A'', ''body'']"
    by (simp add: doc_open_def LF_def)
  have edge: "lines_of doc_open = ''---'' # [''Title: A'', ''body''] \<or>
      lines_of doc_open = [] @ [''---'']"
    using first by simp
  have is_file: "markdown_file (''markdown/open.md'', regular ''open.md'', None)"
    by (simp add: markdown_file_def regular_def HasSuffix_def)
  have read: "os_ReadFile demo_world ''markdown/open.md'' = Inr doc_open"
    by (simp add: demo_world_def demo_files_def)
  have convert: "md demo_world doc_open = Inr (''<p>'' @ doc_open @ ''</p>'' @ [LF])"
    by (simp add: demo_world_def demo_md_def doc_open_def LF_def)
  show ?thesis
    using one first is_file read convert
      edge_delimiter_is_no_front_matter
        [OF one edge is_file read, of refusing PostData_zero "[]"]
    by simp
qed

end
